theory Spec2Isabelle
  imports Complex_Main
begin

section \<open>Data model of \<open>HNLDecayVolume.cxx\<close>\<close>

text \<open>
  The C++ \<open>double\<close> is modelled by \<^typ>\<open>real\<close>: rounding, overflow, infinities and
  NaN are outside the model. HOL's \<open>x / 0 = 0\<close> is not what IEEE arithmetic gives, so
  wherever a divisor can be zero on an ordinary input (the direction components in the
  box intersector) the comparison outcome of the code is written out explicitly; elsewhere
  the theorems assume the divisors they need to be non-zero.
  \<open>std::pow (x, 2.0)\<close> is the square \<open>x\<^sup>2\<close>.
\<close>

record TVector3 =
  X :: real
  Y :: real
  Z :: real

record TLorentzVector = TVector3 +
  T :: real

text \<open>\<open>TLorentzVector::P()\<close> is the magnitude of the spatial part, \<open>E()\<close> the fourth component.\<close>

definition TLorentzVector_P :: "TLorentzVector \<Rightarrow> real" where
  "TLorentzVector_P v = sqrt (X v * X v + Y v * Y v + Z v * Z v)"

definition TLorentzVector_E :: "TLorentzVector \<Rightarrow> real" where
  "TLorentzVector_E v = T v"

text \<open>
  The event record, as far as \<open>ProcessEventRecord\<close> touches it: the accumulated weight,
  the vertex, and the four-momentum of particle 0.
\<close>

record GHepRecord =
  Weight :: real
  Vertex :: TLorentzVector
  Particle0_P4 :: TLorentzVector

text \<open>
  The constants of \<open>genie::units\<close> and \<open>utils::units::UnitFromString\<close> are declared outside
  the shown sources; they are parameters of the model.
\<close>

record GenieUnits =
  units_mm :: real
  units_cm :: real
  units_m :: real
  units_ns :: real
  units_GeV :: real
  UnitFromString :: "string \<Rightarrow> real"

text \<open>Messages handed to \<open>LOG\<close> at warning or error level (debug output is left out).\<close>

datatype log_msg =
    SwitchingUnits string string string
  | FailedToExitVolume
  | SectionSmallerThan5cm
  | UnableToIntersect int

datatype error = AssertionFailed | OutOfRange

text \<open>
  The mutable members of the class that the modelled functions read or write, and the
  messages logged so far (newest first).
\<close>

record HNLDecayVolume =
  fSx :: real  fSy :: real  fSz :: real
  fPx :: real  fPy :: real  fPz :: real
  fEx :: real  fEy :: real  fEz :: real
  fXx :: real  fXy :: real  fXz :: real
  fDx :: real  fDy :: real  fDz :: real
  fLx :: real  fLy :: real  fLz :: real
  fOx :: real  fOy :: real  fOz :: real
  fSxROOT :: real  fSyROOT :: real  fSzROOT :: real
  fExROOT :: real  fEyROOT :: real  fEzROOT :: real
  fXxROOT :: real  fXyROOT :: real  fXzROOT :: real
  fDxROOT :: real  fDyROOT :: real  fDzROOT :: real
  lunits :: real  aunits :: real  tunits :: real
  lunitString :: string  tunitString :: string
  kNewSpeedOfLight :: real
  fCoMLifetime :: real
  isUsingDk2nu :: bool
  messages :: "log_msg list"

text \<open>
  The external collaborators, as functions on an opaque world state \<open>'w\<close>: the upstream
  production model (\<open>HNLDecayer::GenerateDecayPosition\<close>), the random generator
  (\<open>RandomGen::RndGen().Uniform()\<close>) and ROOT's geometry manager with its cursor.
  A \<open>TGeoNode *\<close> is a handle, \<open>NULL\<close> is \<open>None\<close>. \<open>GenerateDecayPosition\<close> is
  handed the event record and is taken to read it only; \<open>GetCurrentPoint\<close> returns the
  three coordinates of the cursor.
\<close>

record 'w Collaborators =
  GenerateDecayPosition :: "GHepRecord \<Rightarrow> 'w \<Rightarrow> real list \<times> 'w"
  Uniform :: "'w \<Rightarrow> real \<times> 'w"
  SetCurrentPoint :: "real \<Rightarrow> real \<Rightarrow> real \<Rightarrow> 'w \<Rightarrow> 'w"
  SetCurrentDirection :: "real \<Rightarrow> real \<Rightarrow> real \<Rightarrow> 'w \<Rightarrow> 'w"
  FindNode :: "'w \<Rightarrow> nat option \<times> 'w"
  GetTopNode :: "'w \<Rightarrow> nat option"
  FindNextBoundaryAndStep :: "real \<Rightarrow> 'w \<Rightarrow> nat option \<times> 'w"
  GetCurrentPoint :: "'w \<Rightarrow> TVector3"
  SetStep :: "real \<Rightarrow> 'w \<Rightarrow> 'w"
  Step :: "'w \<Rightarrow> 'w"

text \<open>ROOT's default \<open>stepmax\<close> of \<open>FindNextBoundaryAndStep\<close>.\<close>

definition TGeoShape_Big :: real where
  "TGeoShape_Big = 10 ^ 30"

section \<open>Unit switching\<close>

definition EnforceUnits ::
  "GenieUnits \<Rightarrow> string \<Rightarrow> string \<Rightarrow> string \<Rightarrow> HNLDecayVolume \<Rightarrow> HNLDecayVolume" where
  "EnforceUnits U length_units angle_units time_units st0 =
    (let st = st0\<lparr>messages := SwitchingUnits length_units angle_units time_units # messages st0\<rparr>;
         old_lunits = lunits st;
         old_tunits = tunits st;
         st = st\<lparr>lunits := UnitFromString U length_units, lunitString := length_units\<rparr>;
         st = st\<lparr>aunits := UnitFromString U angle_units\<rparr>;
         st = st\<lparr>tunits := UnitFromString U time_units, tunitString := time_units\<rparr>;
         r = lunits st / old_lunits;
         st = st\<lparr>fSx := fSx st / r, fSy := fSy st / r, fSz := fSz st / r\<rparr>;
         st = st\<lparr>fPx := fPx st / r, fPy := fPy st / r, fPz := fPz st / r\<rparr>;
         st = st\<lparr>fEx := fEx st / r, fEy := fEy st / r, fEz := fEz st / r\<rparr>;
         st = st\<lparr>fXx := fXx st / r, fXy := fXy st / r, fXz := fXz st / r\<rparr>;
         st = st\<lparr>fLx := fLx st / r, fLy := fLy st / r, fLz := fLz st / r\<rparr>;
         st = st\<lparr>fDx := fDx st / r, fDy := fDy st / r, fDz := fDz st / r\<rparr>;
         st = st\<lparr>fOx := fOx st / r, fOy := fOy st / r, fOz := fOz st / r\<rparr>;
         st = st\<lparr>kNewSpeedOfLight :=
                 kNewSpeedOfLight st / ((lunits st / old_lunits) / (tunits st / old_tunits))\<rparr>
     in st)"

section \<open>Decay sampling\<close>

text \<open>
  Lines 178--194 of \<open>CalcTravelLength\<close>: the travel length as a function of the speed of
  light in the active units, the draw \<open>ranthrow\<close> and the three arguments.
\<close>

definition elapsed_length :: "real \<Rightarrow> real \<Rightarrow> real \<Rightarrow> real \<Rightarrow> real \<Rightarrow> real" where
  "elapsed_length c betaMag CoMLifetime maxLength ranthrow =
    (let maxLabTime = maxLength / (betaMag * c);
         gamma = sqrt (1 / (1 - betaMag * betaMag));
         maxRestTime = maxLabTime / gamma;
         PExit = exp (- maxRestTime / CoMLifetime);
         S0 = (1 - PExit) * ranthrow + PExit;
         rest_time = CoMLifetime * ln (1 / S0);
         elapsed_time = rest_time * gamma
     in elapsed_time * betaMag * c)"

text \<open>
  \<open>CalcTravelLength\<close>: the assertion on \<open>betaMag\<close>, then one draw from the random generator.
\<close>

definition CalcTravelLength ::
  "'w Collaborators \<Rightarrow> HNLDecayVolume \<Rightarrow> real \<Rightarrow> real \<Rightarrow> real \<Rightarrow> 'w \<Rightarrow> error + (real \<times> 'w)" where
  "CalcTravelLength G st betaMag CoMLifetime maxLength w =
    (if betaMag > 0 \<and> betaMag < 1 then
       (case Uniform G w of (ranthrow, w') \<Rightarrow>
          Inr (elapsed_length (kNewSpeedOfLight st) betaMag CoMLifetime maxLength ranthrow, w'))
     else Inl AssertionFailed)"

definition GetDecayPoint ::
  "GenieUnits \<Rightarrow> real \<Rightarrow> TVector3 \<Rightarrow> TVector3 \<Rightarrow> HNLDecayVolume \<Rightarrow> TVector3 \<times> HNLDecayVolume" where
  "GetDecayPoint U travelLength entryPoint momentum st0 =
    (let ex = X entryPoint; ey = Y entryPoint; ez = Z entryPoint;
         px = X momentum; py = Y momentum; pz = Z momentum;
         p2 = px * px + py * py + pz * pz; p = sqrt p2;
         px = px * (1 / p); py = py * (1 / p); pz = pz * (1 / p);
         dx = ex + travelLength * px; st = st0\<lparr>fDx := dx\<rparr>;
         dy = ey + travelLength * py; st = st\<lparr>fDy := dy\<rparr>;
         dz = ez + travelLength * pz; st = st\<lparr>fDz := dz\<rparr>;
         st = st\<lparr>fDxROOT := fDx st * lunits st / units_cm U\<rparr>;
         st = st\<lparr>fDyROOT := fDy st * lunits st / units_cm U\<rparr>;
         st = st\<lparr>fDzROOT := fDz st * lunits st / units_cm U\<rparr>
     in (\<lparr>X = dx, Y = dy, Z = dz\<rparr>, st))"

section \<open>Frame rotation\<close>

text \<open>
  The four-argument \<open>ApplyUserRotation\<close>. \<open>rotVec\<close> is a \<open>std::vector<double>\<close>; the
  assertion on its size comes after the translation and before the first \<open>at\<close>.
\<close>

definition ApplyUserRotation ::
  "TVector3 \<Rightarrow> TVector3 \<Rightarrow> real list \<Rightarrow> bool \<Rightarrow> error + TVector3" where
  "ApplyUserRotation vec oriVec rotVec doBackwards =
    (let vx = X vec; vy = Y vec; vz = Z vec;
         ox = X oriVec; oy = Y oriVec; oz = Z oriVec;
         vx = vx - ox; vy = vy - oy; vz = vz - oz
     in if length rotVec = 3 then
          (let Ax2 = (if doBackwards then - (rotVec ! 2) else rotVec ! 2);
               Az = (if doBackwards then - (rotVec ! 1) else rotVec ! 1);
               Ax1 = (if doBackwards then - (rotVec ! 0) else rotVec ! 0);
               x = vx; y = vy; z = vz;
               vy = y * cos Ax2 - z * sin Ax2;
               vz = y * sin Ax2 + z * cos Ax2;
               y = vy; z = vz;
               vx = x * cos Az - y * sin Az;
               vy = x * sin Az + y * cos Az;
               x = vx; y = vy;
               vy = y * cos Ax1 - z * sin Ax1;
               vz = y * sin Ax1 + z * cos Ax1;
               vx = vx + ox; vy = vy + oy; vz = vz + oz
           in Inr \<lparr>X = vx, Y = vy, Z = vz\<rparr>)
        else Inl AssertionFailed)"

section \<open>Box intersector\<close>

text \<open>
  The block that \<open>SDVEntryAndExitPoints\<close> repeats for each of the six faces: when the
  candidate point \<open>(x, y, z)\<close> is within the bounding square, it is stored as the entry
  point if the dot product is negative, as the exit point if it is positive, and the
  function returns \<open>false\<close> otherwise (\<open>None\<close> here).
\<close>

definition face_block ::
  "bool \<Rightarrow> real \<Rightarrow> real \<Rightarrow> real \<Rightarrow> real \<Rightarrow> HNLDecayVolume \<Rightarrow> HNLDecayVolume option" where
  "face_block inSquare dot x y z st =
    (if inSquare then
       (if dot < 0 then Some (st\<lparr>fEx := x, fEy := y, fEz := z\<rparr>)
        else if dot > 0 then Some (st\<lparr>fXx := x, fXy := y, fXz := z\<rparr>)
        else None)
     else Some st)"

text \<open>
  The bounding-square test \<open>std::abs (q1t) <= l1 && std::abs (q2t) <= l2\<close> of a face
  whose line parameter was divided by the direction component \<open>d\<close>. When \<open>d\<close> is zero the
  parameter is infinite or NaN in the code, \<open>q1t\<close> and \<open>q2t\<close> are infinite or NaN, and the
  test is false; the model says so explicitly.
\<close>

definition within_square :: "real \<Rightarrow> real \<Rightarrow> real \<Rightarrow> real \<Rightarrow> real \<Rightarrow> bool" where
  "within_square d q1t l1 q2t l2 = (d \<noteq> 0 \<and> \<bar>q1t\<bar> \<le> l1 \<and> \<bar>q2t\<bar> \<le> l2)"

text \<open>
  \<open>SDVEntryAndExitPoints\<close>. The assertion that the box is the standard decay volume in
  millimetres is checked. The result is the returned flag, the two reference
  parameters \<open>entryPoint\<close> and \<open>exitPoint\<close> (written only on \<open>return true\<close>) and the
  members as they are when the function returns. For a zero momentum the code stores NaN
  in \<open>fPx, fPy, fPz\<close> and every test fails; the model stores 0 and every test fails.
\<close>

definition SDVEntryAndExitPoints ::
  "TVector3 \<Rightarrow> TVector3 \<Rightarrow> TVector3 \<Rightarrow> TVector3 \<Rightarrow> HNLDecayVolume \<Rightarrow>
     error + (bool \<times> TVector3 \<times> TVector3 \<times> HNLDecayVolume)" where
  "SDVEntryAndExitPoints startPoint momentum entryPoint exitPoint st0 =
    (if fOx st0 = 0 \<and> fOy st0 = 0 \<and> fOz st0 = 0 \<and>
        fLx st0 = 1000 \<and> fLy st0 = 1000 \<and> fLz st0 = 1000 then
       (let st = st0\<lparr>fSx := X startPoint, fSy := Y startPoint, fSz := Z startPoint\<rparr>;
            st = st\<lparr>fPx := X momentum, fPy := Y momentum, fPz := Z momentum\<rparr>;
            fP2 = fPx st * fPx st + fPy st * fPy st + fPz st * fPz st;
            fP = sqrt fP2;
            st = st\<lparr>fPx := fPx st * (1 / fP), fPy := fPy st * (1 / fP), fPz := fPz st * (1 / fP)\<rparr>;
            txP = (fLx st - fSx st) / fPx st;
            txM = (- fLx st - fSx st) / fPx st;
            tyP = (fLy st - fSy st) / fPy st;
            tyM = (- fLy st - fSy st) / fPy st;
            tzP = (fLz st - fSz st) / fPz st;
            tzM = (- fLz st - fSz st) / fPz st;
            q1xP = fSy st + txP * fPy st; q2xP = fSz st + txP * fPz st;
            q1xM = fSy st + txM * fPy st; q2xM = fSz st + txM * fPz st;
            q1yP = fSz st + tyP * fPz st; q2yP = fSx st + tyP * fPx st;
            q1yM = fSz st + tyM * fPz st; q2yM = fSx st + tyM * fPx st;
            q1zP = fSx st + tzP * fPx st; q2zP = fSy st + tzP * fPy st;
            q1zM = fSx st + tzM * fPx st; q2zM = fSy st + tzM * fPy st;
            inxP = within_square (fPx st) q1xP (fLy st) q2xP (fLz st);
            inxM = within_square (fPx st) q1xM (fLy st) q2xM (fLz st);
            inyP = within_square (fPy st) q1yP (fLz st) q2yP (fLx st);
            inyM = within_square (fPy st) q1yM (fLz st) q2yM (fLx st);
            inzP = within_square (fPz st) q1zP (fLx st) q2zP (fLy st);
            inzM = within_square (fPz st) q1zM (fLx st) q2zM (fLy st)
        in
          (case face_block inxP (fSx st * fPx st) (fLx st) q1xP q2xP st of
            None \<Rightarrow> Inr (False, entryPoint, exitPoint, st)
          | Some s1 \<Rightarrow>
          (case face_block inxM (fSx st * fPx st) (- fLx st) q1xM q2xM s1 of
            None \<Rightarrow> Inr (False, entryPoint, exitPoint, s1)
          | Some s2 \<Rightarrow>
          (case face_block inyP (fSy st * fPy st) q2yP (fLy st) q1yP s2 of
            None \<Rightarrow> Inr (False, entryPoint, exitPoint, s2)
          | Some s3 \<Rightarrow>
          (case face_block inyM (fSy st * fPy st) q2yM (- fLy st) q1yM s3 of
            None \<Rightarrow> Inr (False, entryPoint, exitPoint, s3)
          | Some s4 \<Rightarrow>
          (case face_block inzP (fSz st * fPz st) q1zP q2zP (fLz st) s4 of
            None \<Rightarrow> Inr (False, entryPoint, exitPoint, s4)
          | Some s5 \<Rightarrow>
          (case face_block inzM (fSz st * fPz st) q1zM q2zM (- fLz st) s5 of
            None \<Rightarrow> Inr (False, entryPoint, exitPoint, s5)
          | Some s6 \<Rightarrow>
            (let pointsOnX = (inxP \<or> inxM); pointsOnY = (inyP \<or> inyM);
                 pointsOnZ = (inzP \<or> inzM);
                 finalPoints = (pointsOnX \<or> pointsOnY \<or> pointsOnZ)
             in if finalPoints then
                  Inr (True, \<lparr>X = fEx s6, Y = fEy s6, Z = fEz s6\<rparr>,
                       \<lparr>X = fXx s6, Y = fXy s6, Z = fXz s6\<rparr>, s6)
                else Inr (False, entryPoint, exitPoint, s6)))))))))
     else Inl AssertionFailed)"

section \<open>General intersector\<close>

definition bdIdxMax :: int where
  "bdIdxMax = 10000"

text \<open>
  The \<open>while\<close> loop of \<open>VolumeEntryAndExitPoints\<close> (lines 522--530). The condition calls
  \<open>FindNextBoundaryAndStep\<close> first and compares the counter second, so the geometry
  cursor moves once more even when the counter stops the loop. \<open>thr\<close> is
  \<open>2.0 * lunits / units::cm\<close>; \<open>sf\<close> is the last "safe" point in ROOT units. The result is
  the world, the step size, the safe point and the counter when the loop ends.
\<close>

function boundary_loop ::
  "'w Collaborators \<Rightarrow> real \<Rightarrow> 'w \<Rightarrow> real \<Rightarrow> TVector3 \<Rightarrow> int \<Rightarrow> 'w \<times> real \<times> TVector3 \<times> int" where
  "boundary_loop G thr w sNextROOT sf bdIdx =
    (case FindNextBoundaryAndStep G TGeoShape_Big w of (nd, w1) \<Rightarrow>
       if nd \<noteq> None \<and> bdIdx < bdIdxMax then
         (let currPoint = GetCurrentPoint G w1;
              sNextROOT' = (if sNextROOT \<ge> thr then sNextROOT * 0.5 else sNextROOT);
              w2 = SetStep G sNextROOT' w1;
              w3 = Step G w2
          in boundary_loop G thr w3 sNextROOT' currPoint (bdIdx + 1))
       else (w1, sNextROOT, sf, bdIdx))"
  by pat_completeness auto
termination
  by (relation "measure (\<lambda>(G, thr, w, s, sf, bdIdx). nat (bdIdxMax - bdIdx))") auto

declare boundary_loop.simps [simp del]

text \<open>
  \<open>VolumeEntryAndExitPoints\<close> is modelled in the order of its text: entering the volume
  (lines 421--484), saving the entry point and making the first big step (lines 486--518),
  the loop above, and the exit (lines 531--565).

  \<open>enter_volume\<close>: the assertion is checked (a build without \<open>NDEBUG\<close>); its second
  call of \<open>FindNode\<close> happens only when the first did not return \<open>NULL\<close>. The result is
  \<open>nextNode\<close>, the members and the world. The import of the geometry file when no manager
  exists is part of the world.
\<close>

definition enter_volume ::
  "GenieUnits \<Rightarrow> 'w Collaborators \<Rightarrow> TVector3 \<Rightarrow> TVector3 \<Rightarrow> HNLDecayVolume \<Rightarrow> 'w \<Rightarrow>
     error + (nat option \<times> HNLDecayVolume \<times> 'w)" where
  "enter_volume U G startPoint momentum st0 w0 =
    (let mmtolunits = units_mm U / lunits st0;
         sx = X startPoint; sy = Y startPoint; sz = Z startPoint;
         sx = sx * mmtolunits; sy = sy * mmtolunits; sz = sz * mmtolunits;
         px = X momentum; py = Y momentum; pz = Z momentum;
         p2 = px * px + py * py + pz * pz; p = sqrt p2;
         px = px * (1 / p); py = py * (1 / p); pz = pz * (1 / p);
         st = st0\<lparr>fSx := sx, fSy := sy, fSz := sz\<rparr>;
         st = st\<lparr>fSxROOT := fSx st * lunits st / units_cm U,
                 fSyROOT := fSy st * lunits st / units_cm U,
                 fSzROOT := fSz st * lunits st / units_cm U\<rparr>;
         st = st\<lparr>fPx := px, fPy := py, fPz := pz\<rparr>;
         firstZOffset = - 0.1;
         firstZOffset = firstZOffset * (units_m U / lunits st);
         firstZ = fOz st - fLz st / 2 - firstZOffset;
         dz = firstZ - sz;
         tz = dz / pz;
         dx = tz * px;
         dy = tz * py;
         firstX = sx + dx;
         firstY = sy + dy;
         firstXROOT = firstX * lunits st / units_cm U;
         firstYROOT = firstY * lunits st / units_cm U;
         firstZROOT = firstZ * lunits st / units_cm U;
         w = SetCurrentPoint G firstXROOT firstYROOT firstZROOT w0;
         w = SetCurrentDirection G px py pz w
     in
       case FindNode G w of (n1, w) \<Rightarrow>
       (case (if n1 = None then (True, w)
              else (case FindNode G w of (n2, w) \<Rightarrow> (n2 = GetTopNode G w, w))) of
          (outside, w) \<Rightarrow>
       if outside then
         (let stepmax = 1000000;
              stepmax = stepmax * (units_cm U / lunits st)
          in
            case FindNextBoundaryAndStep G stepmax w of (nextNode, w) \<Rightarrow>
            (let tmpPoint = GetCurrentPoint G w in
             if \<bar>X tmpPoint\<bar> = fLx st / 2 * lunits st / units_cm U \<or>
                \<bar>Y tmpPoint\<bar> = fLy st / 2 * lunits st / units_cm U \<or>
                \<bar>Z tmpPoint\<bar> = fLz st / 2 * lunits st / units_cm U
             then (case FindNextBoundaryAndStep G TGeoShape_Big w of
                     (nextNode, w) \<Rightarrow> Inr (nextNode, st, w))
             else Inr (nextNode, st, w)))
       else Inl AssertionFailed))"

text \<open>
  \<open>save_entry_and_step\<close>: the entry point is stored in the members and in
  \<open>entryPoint\<close>, then one step of half the capped largest extent is made. The result is
  \<open>entryPoint\<close>, the members, the world and \<open>sNextROOT\<close>.
\<close>

definition save_entry_and_step ::
  "GenieUnits \<Rightarrow> 'w Collaborators \<Rightarrow> HNLDecayVolume \<Rightarrow> 'w \<Rightarrow>
     TVector3 \<times> HNLDecayVolume \<times> 'w \<times> real" where
  "save_entry_and_step U G st0 w0 =
    (let st = st0\<lparr>fEx := X (GetCurrentPoint G w0) * units_cm U / lunits st0,
                  fEy := Y (GetCurrentPoint G w0) * units_cm U / lunits st0,
                  fEz := Z (GetCurrentPoint G w0) * units_cm U / lunits st0\<rparr>;
         entryPoint = \<lparr>X = fEx st, Y = fEy st, Z = fEz st\<rparr>;
         st = st\<lparr>fExROOT := X (GetCurrentPoint G w0),
                 fEyROOT := Y (GetCurrentPoint G w0),
                 fEzROOT := Z (GetCurrentPoint G w0)\<rparr>;
         sNext = min (max (fLx st) (max (fLy st) (fLz st)))
                     (10 * lunits st / units_cm U) / 2;
         sNextROOT = sNext * lunits st / units_cm U;
         w = SetStep G sNextROOT w0;
         w = Step G w
     in (entryPoint, st, w, sNextROOT))"

text \<open>
  \<open>VolumeEntryAndExitPoints\<close>. \<open>entryPoint\<close> is written as soon as the volume is
  entered, also on the later \<open>return false\<close>; \<open>exitPoint\<close> only on \<open>return true\<close>.
\<close>

definition VolumeEntryAndExitPoints ::
  "GenieUnits \<Rightarrow> 'w Collaborators \<Rightarrow> TVector3 \<Rightarrow> TVector3 \<Rightarrow> TVector3 \<Rightarrow> TVector3 \<Rightarrow>
     HNLDecayVolume \<Rightarrow> 'w \<Rightarrow> error + (bool \<times> TVector3 \<times> TVector3 \<times> HNLDecayVolume \<times> 'w)" where
  "VolumeEntryAndExitPoints U G startPoint momentum entryPoint exitPoint st0 w0 =
    (case enter_volume U G startPoint momentum st0 w0 of
       Inl e \<Rightarrow> Inl e
     | Inr (nextNode, st, w) \<Rightarrow>
         if nextNode = None then Inr (False, entryPoint, exitPoint, st, w)
         else
           (case save_entry_and_step U G st w of
              (entryPoint, st, w, sNextROOT) \<Rightarrow>
           (case boundary_loop G (2 * lunits st / units_cm U) w sNextROOT
                   \<lparr>X = 0, Y = 0, Z = 0\<rparr> 0 of
              (w, sNextROOT, sfROOT, bdIdx) \<Rightarrow>
            if bdIdx = bdIdxMax then
              Inr (False, entryPoint, exitPoint,
                   st\<lparr>messages := FailedToExitVolume # messages st\<rparr>, w)
            else
              (case (if (X sfROOT = 0 \<and> Y sfROOT = 0 \<and> Z sfROOT = 0) \<or>
                        (X sfROOT = fExROOT st \<and> Y sfROOT = fEyROOT st \<and>
                         Z sfROOT = fEzROOT st)
                     then
                       (let st = st\<lparr>messages := SectionSmallerThan5cm # messages st\<rparr>;
                            w = SetCurrentPoint G (fExROOT st) (fEyROOT st) (fEzROOT st) w;
                            w = SetStep G 5 w;
                            w = Step G w
                        in (GetCurrentPoint G w, st, w))
                     else (sfROOT, st, w)) of
                 (sfROOT, st, w) \<Rightarrow>
               (let sfx = X sfROOT * units_cm U / lunits st;
                    sfy = Y sfROOT * units_cm U / lunits st;
                    sfz = Z sfROOT * units_cm U / lunits st;
                    st = st\<lparr>fXx := sfx, fXxROOT := X sfROOT\<rparr>;
                    st = st\<lparr>fXy := sfy, fXyROOT := Y sfROOT\<rparr>;
                    st = st\<lparr>fXz := sfz, fXzROOT := Z sfROOT\<rparr>;
                    exitPoint = \<lparr>X = fXx st, Y = fXy st, Z = fXz st\<rparr>
                in Inr (True, entryPoint, exitPoint, st, w))))))"

section \<open>Orchestration: \<open>ProcessEventRecord\<close>\<close>

definition trajMax :: int where
  "trajMax = 20"

definition v4dummy :: TLorentzVector where
  "v4dummy = \<lparr>X = - 999.9, Y = - 999.9, Z = - 999.9, T = - 999.9\<rparr>"

text \<open>
  The retry loop (lines 68--78). \<open>GenerateDecayPosition\<close> returns a
  \<open>std::vector<double>\<close>, read with \<open>at\<close>, which throws on a vector shorter than three.
  Only \<open>startPoint\<close> is assigned in the loop body; \<open>momentum\<close> is the same in every call
  of the intersector.
\<close>

function retry_loop ::
  "GenieUnits \<Rightarrow> 'w Collaborators \<Rightarrow> GHepRecord \<Rightarrow> TVector3 \<Rightarrow>
     bool \<Rightarrow> int \<Rightarrow> TVector3 \<Rightarrow> TVector3 \<Rightarrow> TVector3 \<Rightarrow> HNLDecayVolume \<Rightarrow> 'w \<Rightarrow>
     error + (bool \<times> int \<times> TVector3 \<times> TVector3 \<times> TVector3 \<times> HNLDecayVolume \<times> 'w)" where
  "retry_loop U G event_rec momentum didIntersectDet trajIdx startPoint entryPoint exitPoint st w =
    (if \<not> didIntersectDet \<and> trajIdx < trajMax then
       (case GenerateDecayPosition G event_rec w of (newProdVtx, w1) \<Rightarrow>
          if length newProdVtx < 3 then Inl OutOfRange
          else
            (let startPoint' = \<lparr>X = newProdVtx ! 0, Y = newProdVtx ! 1, Z = newProdVtx ! 2\<rparr>
             in case VolumeEntryAndExitPoints U G startPoint' momentum entryPoint exitPoint st w1 of
                  Inl e \<Rightarrow> Inl e
                | Inr (didIntersectDet', entryPoint', exitPoint', st', w2) \<Rightarrow>
                    retry_loop U G event_rec momentum didIntersectDet' (trajIdx + 1)
                      startPoint' entryPoint' exitPoint' st' w2))
     else Inr (didIntersectDet, trajIdx, startPoint, entryPoint, exitPoint, st, w))"
  by pat_completeness auto
termination
  by (relation "measure (\<lambda>(U, G, ev, m, d, trajIdx, r). nat (trajMax - trajIdx))") auto

declare retry_loop.simps [simp del]

text \<open>Line 110--112: the distance from the start point to the entry point, as coded.\<close>

definition distanceBeforeDet :: "TVector3 \<Rightarrow> TVector3 \<Rightarrow> real" where
  "distanceBeforeDet entryPoint startPoint =
     sqrt ((X entryPoint - X startPoint)\<^sup>2 +
           (Y entryPoint - Y startPoint)\<^sup>2 +
           (Y entryPoint - Z startPoint)\<^sup>2)"

text \<open>
  Lines 114--119: a lab-frame distance turned into a rest-frame time (used for
  \<open>timeBeforeDet\<close> and for \<open>timeInsideDet\<close>).
\<close>

definition restFrameTime :: "real \<Rightarrow> real \<Rightarrow> real \<Rightarrow> real \<Rightarrow> real" where
  "restFrameTime distance betaMag c gamma =
     (let labTime = distance / (betaMag * c);
          LabToRestTime = 1 / gamma
      in labTime * LabToRestTime)"

text \<open>Lines 121 and 123.\<close>

definition survProb :: "real \<Rightarrow> real \<Rightarrow> real" where
  "survProb timeBeforeDet CoMLifetime = exp (- timeBeforeDet / CoMLifetime)"

definition decayProb :: "real \<Rightarrow> real \<Rightarrow> real" where
  "decayProb timeInsideDet CoMLifetime = 1 - exp (- timeInsideDet / CoMLifetime)"

text \<open>
  Lines 89--138: what \<open>ProcessEventRecord\<close> does once entry and exit points are known.
\<close>

definition decay_in_detector ::
  "GenieUnits \<Rightarrow> 'w Collaborators \<Rightarrow> GHepRecord \<Rightarrow> TVector3 \<Rightarrow> TVector3 \<Rightarrow> TVector3 \<Rightarrow> TVector3 \<Rightarrow>
     HNLDecayVolume \<Rightarrow> 'w \<Rightarrow> error + (GHepRecord \<times> HNLDecayVolume \<times> 'w)" where
  "decay_in_detector U G event_rec startPoint momentum entryPoint exitPoint st0 w0 =
    (let st = EnforceUnits U ''mm'' ''rad'' ''ns'' st0;
         st = st\<lparr>fCoMLifetime := fCoMLifetime st * (1 / (units_ns U * units_GeV U))\<rparr>;
         maxDx = X exitPoint - X entryPoint;
         maxDy = Y exitPoint - Y entryPoint;
         maxDz = Z exitPoint - Z entryPoint;
         maxLength = sqrt (maxDx\<^sup>2 + maxDy\<^sup>2 + maxDz\<^sup>2);
         p4HNL = Particle0_P4 event_rec;
         betaMag = TLorentzVector_P p4HNL / TLorentzVector_E p4HNL;
         gamma = sqrt (1 / (1 - betaMag * betaMag))
     in case CalcTravelLength G st betaMag (fCoMLifetime st) maxLength w0 of
          Inl e \<Rightarrow> Inl e
        | Inr (elapsed, w) \<Rightarrow>
            (let timeBeforeDet =
                   restFrameTime (distanceBeforeDet entryPoint startPoint) betaMag
                     (kNewSpeedOfLight st) gamma;
                 timeInsideDet = restFrameTime maxLength betaMag (kNewSpeedOfLight st) gamma;
                 weight = 1;
                 weight = weight * (1 / survProb timeBeforeDet (fCoMLifetime st));
                 weight = weight * (1 / decayProb timeInsideDet (fCoMLifetime st));
                 event_rec = event_rec\<lparr>Weight := Weight event_rec * weight\<rparr>
             in case GetDecayPoint U elapsed entryPoint momentum st of
                  (decayPoint, st) \<Rightarrow>
                    (let x4 = \<lparr>X = X decayPoint * units_mm U / units_m U,
                               Y = Y decayPoint * units_mm U / units_m U,
                               Z = Z decayPoint * units_mm U / units_m U,
                               T = T (Vertex event_rec)\<rparr>
                     in Inr (event_rec\<lparr>Vertex := x4\<rparr>, st, w))))"

text \<open>
  \<open>ProcessEventRecord\<close>. The local \<open>entryPoint\<close> and \<open>exitPoint\<close> start as the zero
  vector. With \<open>isUsingDk2nu\<close> a missed detector fails the assertion.
\<close>

definition ProcessEventRecord ::
  "GenieUnits \<Rightarrow> 'w Collaborators \<Rightarrow> GHepRecord \<Rightarrow> HNLDecayVolume \<Rightarrow> 'w \<Rightarrow>
     error + (GHepRecord \<times> HNLDecayVolume \<times> 'w)" where
  "ProcessEventRecord U G event_rec st0 w0 =
    (let startPoint = \<lparr>X = fSx st0, Y = fSy st0, Z = fSz st0\<rparr>;
         momentum = \<lparr>X = fPx st0, Y = fPy st0, Z = fPz st0\<rparr>;
         zero = \<lparr>X = 0, Y = 0, Z = 0\<rparr>
     in case VolumeEntryAndExitPoints U G startPoint momentum zero zero st0 w0 of
          Inl e \<Rightarrow> Inl e
        | Inr (didIntersectDet, entryPoint, exitPoint, st, w) \<Rightarrow>
            (case (if isUsingDk2nu st then
                     (if didIntersectDet
                      then Inr (didIntersectDet, 0, startPoint, entryPoint, exitPoint, st, w)
                      else Inl AssertionFailed)
                   else retry_loop U G event_rec momentum didIntersectDet 0
                          startPoint entryPoint exitPoint st w) of
               Inl e \<Rightarrow> Inl e
             | Inr (didIntersectDet, trajIdx, startPoint, entryPoint, exitPoint, st, w) \<Rightarrow>
                 if trajIdx = trajMax \<and> \<not> didIntersectDet then
                   Inr (event_rec\<lparr>Vertex := v4dummy\<rparr>,
                        st\<lparr>messages := UnableToIntersect trajIdx # messages st\<rparr>, w)
                 else decay_in_detector U G event_rec startPoint momentum entryPoint exitPoint st w))"

section \<open>Notions used to state the properties\<close>

text \<open>\<open>TVector3::Mag()\<close>, the length of a vector.\<close>

definition Mag :: "TVector3 \<Rightarrow> real" where
  "Mag v = sqrt (X v * X v + Y v * Y v + Z v * Z v)"

text \<open>The Euclidean distance between two points, as the specification words it.\<close>

definition euclidean_distance :: "TVector3 \<Rightarrow> TVector3 \<Rightarrow> real" where
  "euclidean_distance a b = sqrt ((X a - X b)\<^sup>2 + (Y a - Y b)\<^sup>2 + (Z a - Z b)\<^sup>2)"

text \<open>
  A face of the standard decay volume at coordinate \<open>plane\<close> on axis \<open>a\<close> is hit
  tangentially in the sense of the box intersector when its bounding-square test
  succeeds and the product of the start coordinate \<open>sa\<close> and the direction component
  \<open>da\<close> on that axis is exactly zero. \<open>b\<close> and \<open>c\<close> are the two other axes in the order in
  which the code computes \<open>q1t\<close> and \<open>q2t\<close>.
\<close>

definition tangent_face :: "real \<Rightarrow> real \<Rightarrow> real \<Rightarrow> real \<Rightarrow> real \<Rightarrow> real \<Rightarrow> real \<Rightarrow> bool" where
  "tangent_face plane sa da sb db sc dc =
     (within_square da (sb + (plane - sa) / da * db) 1000 (sc + (plane - sa) / da * dc) 1000
      \<and> sa * da = 0)"

subsection \<open>Concrete inputs\<close>

text \<open>
  Units with millimetre and nanosecond as 1, a decay volume of side 1000 mm at the origin
  with a particle starting 5 m upstream on the z axis, and a geometry in which the
  trajectory enters a solid and never leaves it.
\<close>

definition U0 :: GenieUnits where
  "U0 = \<lparr>units_mm = 1, units_cm = 10, units_m = 1000, units_ns = 1, units_GeV = 1,
         UnitFromString = (\<lambda>s. if s = ''m'' then 1000 else 1)\<rparr>"

definition st0 :: HNLDecayVolume where
  "st0 = \<lparr>fSx = 0, fSy = 0, fSz = - 5000,
          fPx = 0, fPy = 0, fPz = 2,
          fEx = 0, fEy = 0, fEz = 0,
          fXx = 0, fXy = 0, fXz = 0,
          fDx = 0, fDy = 0, fDz = 0,
          fLx = 1000, fLy = 1000, fLz = 1000,
          fOx = 0, fOy = 0, fOz = 0,
          fSxROOT = 0, fSyROOT = 0, fSzROOT = 0,
          fExROOT = 0, fEyROOT = 0, fEzROOT = 0,
          fXxROOT = 0, fXyROOT = 0, fXzROOT = 0,
          fDxROOT = 0, fDyROOT = 0, fDzROOT = 0,
          lunits = 1, aunits = 1, tunits = 1,
          lunitString = ''mm'', tunitString = ''ns'',
          kNewSpeedOfLight = 299.792458,
          fCoMLifetime = 1,
          isUsingDk2nu = False,
          messages = []\<rparr>"

definition G_inside :: "unit Collaborators" where
  "G_inside = \<lparr>GenerateDecayPosition = (\<lambda>ev w. ([0, 0, - 5000], w)),
       Uniform = (\<lambda>w. (1 / 2, w)),
       SetCurrentPoint = (\<lambda>x y z w. w),
       SetCurrentDirection = (\<lambda>x y z w. w),
       FindNode = (\<lambda>w. (None, w)),
       GetTopNode = (\<lambda>w. Some 0),
       FindNextBoundaryAndStep = (\<lambda>s w. (Some 1, w)),
       GetCurrentPoint = (\<lambda>w. \<lparr>X = 0, Y = 0, Z = 7\<rparr>),
       SetStep = (\<lambda>s w. w),
       Step = (\<lambda>w. w)\<rparr>"

definition ev0 :: GHepRecord where
  "ev0 = \<lparr>Weight = 3, Vertex = \<lparr>X = 0, Y = 0, Z = - 5, T = 0\<rparr>,
          Particle0_P4 = \<lparr>X = 0, Y = 0, Z = 1, T = 2\<rparr>\<rparr>"

text \<open>
  A geometry that every trajectory misses, with a production model that returns a new
  vertex on every call. Its world is the list of the directions handed to
  \<open>SetCurrentDirection\<close>, newest first.
\<close>

definition G_log :: "(real \<times> real \<times> real) list Collaborators" where
  "G_log = \<lparr>GenerateDecayPosition = (\<lambda>ev w. ([real (length w), 0, - 5000], w)),
       Uniform = (\<lambda>w. (1 / 2, w)),
       SetCurrentPoint = (\<lambda>x y z w. w),
       SetCurrentDirection = (\<lambda>x y z w. (x, y, z) # w),
       FindNode = (\<lambda>w. (None, w)),
       GetTopNode = (\<lambda>w. Some 0),
       FindNextBoundaryAndStep = (\<lambda>s w. (None, w)),
       GetCurrentPoint = (\<lambda>w. \<lparr>X = 0, Y = 0, Z = 7\<rparr>),
       SetStep = (\<lambda>s w. w),
       Step = (\<lambda>w. w)\<rparr>"

text \<open>
  A geometry that is entered at the first boundary and left at the third; the world counts
  the boundary queries and the cursor moves 30 cm along \<open>z\<close> with each.
\<close>

definition G_hit :: "nat Collaborators" where
  "G_hit = \<lparr>GenerateDecayPosition = (\<lambda>ev w. ([0, 0, - 5000], w)),
       Uniform = (\<lambda>w. (1 / 2, w)),
       SetCurrentPoint = (\<lambda>x y z w. w),
       SetCurrentDirection = (\<lambda>x y z w. w),
       FindNode = (\<lambda>w. (None, w)),
       GetTopNode = (\<lambda>w. Some 0),
       FindNextBoundaryAndStep = (\<lambda>s w. (if w < 2 then Some 1 else None, w + 1)),
       GetCurrentPoint = (\<lambda>w. \<lparr>X = 0, Y = 0, Z = real w * 30 - 50\<rparr>),
       SetStep = (\<lambda>s w. w),
       Step = (\<lambda>w. w)\<rparr>"

text \<open>
  A result of the box intersector that is a returned flag, and that leaves \<open>entryPoint\<close>
  and \<open>exitPoint\<close> as they were when the flag is \<open>false\<close>.
\<close>

definition returns_flag ::
  "TVector3 \<Rightarrow> TVector3 \<Rightarrow> (error + (bool \<times> TVector3 \<times> TVector3 \<times> HNLDecayVolume)) \<Rightarrow> bool" where
  "returns_flag e x r = (\<exists>b e' x' st'. r = Inr (b, e', x', st') \<and> (b \<or> (e' = e \<and> x' = x)))"

section \<open>Box intersector: a through-going trajectory\<close>

text \<open>
  C1. The claim: a trajectory through the standard decay volume (a cube of side 1 m at the
  origin) that starts at \<open>(-2, 0, 0)\<close> m and moves in \<open>+x\<close> is reported with entry
  \<open>(-0.5, 0, 0)\<close> m and exit \<open>(0.5, 0, 0)\<close> m. What the code does, in millimetres: both
  \<open>x\<close> faces pass the bounding-square test and both are classified with the same product
  \<open>fSx * fPx < 0\<close>, so both are stored as the entry point, the planes are at
  \<open>\<plusminus>fLx = \<plusminus>1000\<close> although \<open>fLx\<close> is the side, and the exit point is whatever
  \<open>fXx, fXy, fXz\<close> held before the call.
\<close>

theorem SDVEntryAndExitPoints_through_going:
  "\<exists>st'. SDVEntryAndExitPoints \<lparr>X = - 2000, Y = 0, Z = 0\<rparr> \<lparr>X = 1, Y = 0, Z = 0\<rparr> e x
     (st\<lparr>fOx := 0, fOy := 0, fOz := 0, fLx := 1000, fLy := 1000, fLz := 1000\<rparr>)
   = Inr (True, \<lparr>X = - 1000, Y = 0, Z = 0\<rparr>, \<lparr>X = fXx st, Y = fXy st, Z = fXz st\<rparr>, st')"
  by (simp add: SDVEntryAndExitPoints_def Let_def within_square_def face_block_def)

section \<open>The distance before the detector\<close>

text \<open>
  C2. The claim: the distance before the detector is the Euclidean distance between the
  start point and the entry point. The code subtracts the start's \<open>z\<close> from the entry's
  \<open>y\<close> in the third term: for a start at the origin and an entry at \<open>(0, 0, 3)\<close> it
  gives 0 where the Euclidean distance is 3.
\<close>

theorem distanceBeforeDet_uses_Y_for_Z:
  "distanceBeforeDet \<lparr>X = 0, Y = 0, Z = 3\<rparr> \<lparr>X = 0, Y = 0, Z = 0\<rparr> = 0
   \<and> euclidean_distance \<lparr>X = 0, Y = 0, Z = 3\<rparr> \<lparr>X = 0, Y = 0, Z = 0\<rparr> = 3"
  by (simp add: distanceBeforeDet_def euclidean_distance_def)

section \<open>Frame rotation and its backward form\<close>

text \<open>
  C3. The claim: rotating forward and then with \<open>doBackwards\<close> gives the point back. The
  code negates the three angles and applies the rotations in the same order, which is
  not the inverse: with angles \<open>(\<pi>/2, \<pi>/2, 0)\<close> about the origin the point \<open>(1, 0, 0)\<close>
  goes to \<open>(0, 0, 1)\<close>, and that goes back to \<open>(0, 1, 0)\<close>.
\<close>

theorem ApplyUserRotation_round_trip_fails:
  "ApplyUserRotation \<lparr>X = 1, Y = 0, Z = 0\<rparr> \<lparr>X = 0, Y = 0, Z = 0\<rparr> [pi / 2, pi / 2, 0] False
     = Inr \<lparr>X = 0, Y = 0, Z = 1\<rparr>
   \<and> ApplyUserRotation \<lparr>X = 0, Y = 0, Z = 1\<rparr> \<lparr>X = 0, Y = 0, Z = 0\<rparr> [pi / 2, pi / 2, 0] True
     = Inr \<lparr>X = 0, Y = 1, Z = 0\<rparr>"
  by (simp add: ApplyUserRotation_def Let_def)

section \<open>The decay point\<close>

lemma Mag_scale:
  "0 < k \<Longrightarrow> Mag \<lparr>X = k * X m, Y = k * Y m, Z = k * Z m\<rparr> = k * Mag m"
proof -
  assume k: "0 < k"
  have "k * X m * (k * X m) + k * Y m * (k * Y m) + k * Z m * (k * Z m)
      = k\<^sup>2 * (X m * X m + Y m * Y m + Z m * Z m)"
    by (simp add: power2_eq_square algebra_simps)
  then show ?thesis using k
    by (simp add: Mag_def real_sqrt_mult)
qed

text \<open>
  C10. For a momentum of positive length, \<open>GetDecayPoint\<close> returns the entry point moved by
  the travel length along the unit vector of the momentum, and the result does not
  change when the momentum is multiplied by a positive factor.
\<close>

theorem GetDecayPoint_normalises_momentum:
  assumes "0 < Mag m" and "0 < k"
  shows "fst (GetDecayPoint U l e m st) =
           \<lparr>X = X e + l * (X m / Mag m), Y = Y e + l * (Y m / Mag m), Z = Z e + l * (Z m / Mag m)\<rparr>
       \<and> fst (GetDecayPoint U l e \<lparr>X = k * X m, Y = k * Y m, Z = k * Z m\<rparr> st) =
           fst (GetDecayPoint U l e m st)"
proof -
  have 1: "\<And>v. fst (GetDecayPoint U l e v st) =
           \<lparr>X = X e + l * (X v / Mag v), Y = Y e + l * (Y v / Mag v), Z = Z e + l * (Z v / Mag v)\<rparr>"
    by (simp add: GetDecayPoint_def Let_def Mag_def)
  have 2: "Mag \<lparr>X = k * X m, Y = k * Y m, Z = k * Z m\<rparr> = k * Mag m"
    using assms(2) by (rule Mag_scale)
  show ?thesis using assms by (simp add: 1 2)
qed

theorem GetDecayPoint_normalises_momentum_witness:
  "0 < Mag \<lparr>X = 0, Y = 0, Z = 1\<rparr> \<and> (0::real) < 2
   \<and> fst (GetDecayPoint U0 3 \<lparr>X = 1, Y = 1, Z = 1\<rparr> \<lparr>X = 0, Y = 0, Z = 1\<rparr> st0) = \<lparr>X = 1, Y = 1, Z = 4\<rparr>
   \<and> fst (GetDecayPoint U0 3 \<lparr>X = 1, Y = 1, Z = 1\<rparr> \<lparr>X = 0, Y = 0, Z = 2\<rparr> st0) = \<lparr>X = 1, Y = 1, Z = 4\<rparr>"
proof -
  have m: "0 < Mag \<lparr>X = 0, Y = 0, Z = 1\<rparr>" by (simp add: Mag_def)
  have k: "(0::real) < 2" by simp
  from GetDecayPoint_normalises_momentum[OF m k, of U0 3 "\<lparr>X = 1, Y = 1, Z = 1\<rparr>" st0] m
  show ?thesis by (simp add: Mag_def)
qed

section \<open>The stepping loop of the general intersector\<close>

lemma boundary_loop_counter:
  "bdIdx \<le> bdIdxMax \<Longrightarrow> boundary_loop G thr w s sf bdIdx = (w', s', sf', n) \<Longrightarrow>
     bdIdx \<le> n \<and> n \<le> bdIdxMax"
proof (induction G thr w s sf bdIdx rule: boundary_loop.induct)
  case (1 G thr w sNextROOT sf bdIdx)
  obtain nd w1 where f: "FindNextBoundaryAndStep G TGeoShape_Big w = (nd, w1)"
    by (cases "FindNextBoundaryAndStep G TGeoShape_Big w")
  show ?case
  proof (cases "nd \<noteq> None \<and> bdIdx < bdIdxMax")
    case True
    let ?s = "if thr \<le> sNextROOT then sNextROOT * 0.5 else sNextROOT"
    let ?w = "Step G (SetStep G ?s w1)"
    from "1.prems"(2) f True
    have r: "boundary_loop G thr ?w ?s (GetCurrentPoint G w1) (bdIdx + 1) = (w', s', sf', n)"
      by (subst (asm) boundary_loop.simps) (simp add: Let_def)
    from True have "bdIdx + 1 \<le> bdIdxMax" by simp
    with "1.IH"[OF f[symmetric] True refl refl refl refl _ r]
    show ?thesis by simp
  next
    case False
    with "1.prems" f show ?thesis
      by (subst (asm) boundary_loop.simps) (auto simp: Let_def)
  qed
qed

lemma boundary_loop_never_exits:
  "(\<And>s w. fst (FindNextBoundaryAndStep G s w) \<noteq> None) \<Longrightarrow> bdIdx \<le> bdIdxMax \<Longrightarrow>
     snd (snd (snd (boundary_loop G thr w s sf bdIdx))) = bdIdxMax"
proof (induction G thr w s sf bdIdx rule: boundary_loop.induct)
  case (1 G thr w sNextROOT sf bdIdx)
  obtain nd w1 where f: "FindNextBoundaryAndStep G TGeoShape_Big w = (nd, w1)"
    by (cases "FindNextBoundaryAndStep G TGeoShape_Big w")
  from "1.prems"(1)[of TGeoShape_Big w] f have nd: "nd \<noteq> None" by simp
  show ?case
  proof (cases "bdIdx < bdIdxMax")
    case True
    with nd have c: "nd \<noteq> None \<and> bdIdx < bdIdxMax" by simp
    from True have le: "bdIdx + 1 \<le> bdIdxMax" by simp
    have "snd (snd (snd (boundary_loop G thr
             (Step G (SetStep G (if thr \<le> sNextROOT then sNextROOT * 0.5 else sNextROOT) w1))
             (if thr \<le> sNextROOT then sNextROOT * 0.5 else sNextROOT)
             (GetCurrentPoint G w1) (bdIdx + 1)))) = bdIdxMax"
      using "1.IH"[OF f[symmetric] c refl refl refl refl "1.prems"(1) le] .
    with f c show ?thesis
      by (subst boundary_loop.simps) (simp add: Let_def)
  next
    case False
    with "1.prems"(2) have "bdIdx = bdIdxMax" by simp
    with f show ?thesis
      by (subst boundary_loop.simps) simp
  qed
qed

lemma loop_bound:
  "case boundary_loop G thr w s sf 0 of (w', s', sf', n) \<Rightarrow> 0 \<le> n \<and> n \<le> bdIdxMax"
proof -
  obtain w' s' sf' n where r: "boundary_loop G thr w s sf 0 = (w', s', sf', n)"
    using prod_cases4 by blast
  have "0 \<le> bdIdxMax" by (simp add: bdIdxMax_def)
  from boundary_loop_counter[OF this r] show ?thesis by (simp add: r)
qed

lemma budget_exhausted:
  assumes e: "enter_volume U G startPoint momentum st w0 = Inr (Some nd, st1, w1)"
    and s: "save_entry_and_step U G st1 w1 = (entry, st2, w2, sNextROOT)"
    and l: "boundary_loop G (2 * lunits st2 / units_cm U) w2 sNextROOT \<lparr>X = 0, Y = 0, Z = 0\<rparr> 0
      = (w3, s3, sf3, bdIdxMax)"
  shows "VolumeEntryAndExitPoints U G startPoint momentum entryPoint exitPoint st w0
      = Inr (False, entry, exitPoint, st2\<lparr>messages := FailedToExitVolume # messages st2\<rparr>, w3)"
  unfolding VolumeEntryAndExitPoints_def
  by (simp only: e s l sum.case prod.case option.distinct if_False if_True simp_thms)

text \<open>
  C9. The loop is a total function, and started with the counter at 0 it ends with the
  counter between 0 and 10000: the body runs at most 10000 times, whatever the geometry
  answers. When the volume was entered and the loop ends with the counter at the budget,
  \<open>VolumeEntryAndExitPoints\<close> returns \<open>false\<close>, with the warning logged, the entry point
  already written and the exit point untouched.
\<close>

theorem VolumeEntryAndExitPoints_step_budget:
  "(case boundary_loop G thr w s sf 0 of (w', s', sf', n) \<Rightarrow> 0 \<le> n \<and> n \<le> bdIdxMax) \<and>
   (enter_volume U G startPoint momentum st w0 = Inr (Some nd, st1, w1) \<longrightarrow>
    save_entry_and_step U G st1 w1 = (entry, st2, w2, sNextROOT) \<longrightarrow>
    boundary_loop G (2 * lunits st2 / units_cm U) w2 sNextROOT \<lparr>X = 0, Y = 0, Z = 0\<rparr> 0
      = (w3, s3, sf3, bdIdxMax) \<longrightarrow>
    VolumeEntryAndExitPoints U G startPoint momentum entryPoint exitPoint st w0
      = Inr (False, entry, exitPoint, st2\<lparr>messages := FailedToExitVolume # messages st2\<rparr>, w3))"
  using loop_bound[of G thr w s sf]
    budget_exhausted[of U G startPoint momentum st w0 nd st1 w1 entry st2 w2 sNextROOT w3 s3 sf3
      entryPoint exitPoint]
  by blast

lemma enter_volume_G_inside:
  "\<exists>st1. enter_volume U0 G_inside \<lparr>X = 0, Y = 0, Z = - 5000\<rparr> \<lparr>X = 0, Y = 0, Z = 2\<rparr> st0 ()
      = Inr (Some 1, st1, ())"
  by (simp add: enter_volume_def Let_def G_inside_def)

theorem VolumeEntryAndExitPoints_step_budget_witness:
  "\<exists>entry st' w'. VolumeEntryAndExitPoints U0 G_inside \<lparr>X = 0, Y = 0, Z = - 5000\<rparr> \<lparr>X = 0, Y = 0, Z = 2\<rparr>
      \<lparr>X = 0, Y = 0, Z = 0\<rparr> \<lparr>X = 0, Y = 0, Z = 0\<rparr> st0 ()
     = Inr (False, entry, \<lparr>X = 0, Y = 0, Z = 0\<rparr>, st', w') \<and> hd (messages st') = FailedToExitVolume"
proof -
  obtain st1 where e: "enter_volume U0 G_inside \<lparr>X = 0, Y = 0, Z = - 5000\<rparr> \<lparr>X = 0, Y = 0, Z = 2\<rparr> st0 ()
      = Inr (Some 1, st1, ())"
    using enter_volume_G_inside by blast
  obtain entry st2 w2 sN where s: "save_entry_and_step U0 G_inside st1 () = (entry, st2, w2, sN)"
    using prod_cases4 by blast
  have ne: "\<And>s w. fst (FindNextBoundaryAndStep G_inside s w) \<noteq> None"
    by (simp add: G_inside_def)
  have le: "0 \<le> bdIdxMax" by (simp add: bdIdxMax_def)
  obtain w3 s3 sf3 n where l0: "boundary_loop G_inside (2 * lunits st2 / units_cm U0) w2 sN
       \<lparr>X = 0, Y = 0, Z = 0\<rparr> 0 = (w3, s3, sf3, n)"
    using prod_cases4 by blast
  have "n = bdIdxMax"
    using boundary_loop_never_exits[OF ne le, of "2 * lunits st2 / units_cm U0" w2 sN
        "\<lparr>X = 0, Y = 0, Z = 0\<rparr>"]
    by (simp only: l0 snd_conv)
  with l0 have l: "boundary_loop G_inside (2 * lunits st2 / units_cm U0) w2 sN
       \<lparr>X = 0, Y = 0, Z = 0\<rparr> 0 = (w3, s3, sf3, bdIdxMax)" by simp
  have "VolumeEntryAndExitPoints U0 G_inside \<lparr>X = 0, Y = 0, Z = - 5000\<rparr> \<lparr>X = 0, Y = 0, Z = 2\<rparr>
      \<lparr>X = 0, Y = 0, Z = 0\<rparr> \<lparr>X = 0, Y = 0, Z = 0\<rparr> st0 ()
     = Inr (False, entry, \<lparr>X = 0, Y = 0, Z = 0\<rparr>, st2\<lparr>messages := FailedToExitVolume # messages st2\<rparr>, w3)"
    using VolumeEntryAndExitPoints_step_budget[THEN conjunct2, rule_format, OF e s l] .
  then show ?thesis by simp
qed

section \<open>Box intersector: the tangent policy\<close>

lemma face_block_Some: "face_block b d x y z st = Some st' \<Longrightarrow> \<not> (b \<and> d = 0)"
  by (auto simp: face_block_def split: if_splits)

lemma case_option_Inr_True:
  assumes "(case opt of None \<Rightarrow> Inr (False, a) | Some s \<Rightarrow> g s) = Inr (True, r)"
  obtains s where "opt = Some s" and "g s = Inr (True, r)"
  using assms by (cases opt) auto

lemma SDV_true_no_tangent:
  assumes "SDVEntryAndExitPoints s m e x st = Inr (True, e', x', st')"
  shows "\<not> (tangent_face 1000 (X s) (X m * (1 / Mag m)) (Y s) (Y m * (1 / Mag m)) (Z s) (Z m * (1 / Mag m))
    \<or> tangent_face (- 1000) (X s) (X m * (1 / Mag m)) (Y s) (Y m * (1 / Mag m)) (Z s) (Z m * (1 / Mag m))
    \<or> tangent_face 1000 (Y s) (Y m * (1 / Mag m)) (Z s) (Z m * (1 / Mag m)) (X s) (X m * (1 / Mag m))
    \<or> tangent_face (- 1000) (Y s) (Y m * (1 / Mag m)) (Z s) (Z m * (1 / Mag m)) (X s) (X m * (1 / Mag m))
    \<or> tangent_face 1000 (Z s) (Z m * (1 / Mag m)) (X s) (X m * (1 / Mag m)) (Y s) (Y m * (1 / Mag m))
    \<or> tangent_face (- 1000) (Z s) (Z m * (1 / Mag m)) (X s) (X m * (1 / Mag m)) (Y s) (Y m * (1 / Mag m)))"
  using assms
  unfolding SDVEntryAndExitPoints_def Let_def
  apply (cases "fOx st = 0 \<and> fOy st = 0 \<and> fOz st = 0 \<and>
        fLx st = 1000 \<and> fLy st = 1000 \<and> fLz st = 1000")
   prefer 2 apply (subst (asm) if_not_P, assumption) apply simp
  apply (subst (asm) if_P, assumption)
  apply (erule case_option_Inr_True)+
  apply (drule face_block_Some)+
  apply (simp add: tangent_face_def Mag_def within_square_def)
  done

lemma returns_flag_case:
  "(\<And>s. returns_flag e x (g s)) \<Longrightarrow>
     returns_flag e x (case opt of None \<Rightarrow> Inr (False, e, x, st) | Some s \<Rightarrow> g s)"
  by (cases opt) (auto simp: returns_flag_def)

lemma returns_flag_if:
  "returns_flag e x (if c then Inr (True, a, b, s) else Inr (False, e, x, s'))"
  by (auto simp: returns_flag_def)

lemma SDV_returns:
  assumes "fOx st = 0 \<and> fOy st = 0 \<and> fOz st = 0 \<and> fLx st = 1000 \<and> fLy st = 1000 \<and> fLz st = 1000"
  shows "returns_flag e x (SDVEntryAndExitPoints s m e x st)"
  unfolding SDVEntryAndExitPoints_def Let_def
  apply (subst if_P, rule assms)
  apply (rule returns_flag_case)+
  apply (rule returns_flag_if)
  done

text \<open>
  C7. On the standard decay volume, with \<open>(dx, dy, dz)\<close> the direction as the code
  normalises it: when for one of the six faces the bounding-square test succeeds and the
  product of the start coordinate and the direction component on the face's axis is
  exactly zero, the box intersector returns \<open>false\<close> and leaves \<open>entryPoint\<close> and
  \<open>exitPoint\<close> as they were.
\<close>

theorem SDVEntryAndExitPoints_tangent_is_miss:
  assumes box: "fOx st = 0 \<and> fOy st = 0 \<and> fOz st = 0 \<and> fLx st = 1000 \<and> fLy st = 1000 \<and> fLz st = 1000"
    and dir: "dx = X m * (1 / Mag m) \<and> dy = Y m * (1 / Mag m) \<and> dz = Z m * (1 / Mag m)"
    and tangent: "tangent_face 1000 (X s) dx (Y s) dy (Z s) dz
       \<or> tangent_face (- 1000) (X s) dx (Y s) dy (Z s) dz
       \<or> tangent_face 1000 (Y s) dy (Z s) dz (X s) dx
       \<or> tangent_face (- 1000) (Y s) dy (Z s) dz (X s) dx
       \<or> tangent_face 1000 (Z s) dz (X s) dx (Y s) dy
       \<or> tangent_face (- 1000) (Z s) dz (X s) dx (Y s) dy"
  shows "\<exists>st'. SDVEntryAndExitPoints s m e x st = Inr (False, e, x, st')"
proof -
  from SDV_returns[OF box, of e x s m]
  obtain b e' x' st' where r: "SDVEntryAndExitPoints s m e x st = Inr (b, e', x', st')"
    and u: "b \<or> (e' = e \<and> x' = x)"
    unfolding returns_flag_def by blast
  have "\<not> b"
  proof
    assume b
    with r have "SDVEntryAndExitPoints s m e x st = Inr (True, e', x', st')" by simp
    from SDV_true_no_tangent[OF this] tangent dir show False by blast
  qed
  with r u show ?thesis by auto
qed

theorem SDVEntryAndExitPoints_tangent_is_miss_witness:
  "tangent_face 1000 0 1 500 0 200 0 \<and>
   (\<exists>st'. SDVEntryAndExitPoints \<lparr>X = 0, Y = 500, Z = 200\<rparr> \<lparr>X = 1, Y = 0, Z = 0\<rparr>
      \<lparr>X = 7, Y = 7, Z = 7\<rparr> \<lparr>X = 8, Y = 8, Z = 8\<rparr> st0
     = Inr (False, \<lparr>X = 7, Y = 7, Z = 7\<rparr>, \<lparr>X = 8, Y = 8, Z = 8\<rparr>, st'))"
proof -
  have t: "tangent_face 1000 0 1 500 0 200 0"
    by (simp add: tangent_face_def within_square_def)
  have box: "fOx st0 = 0 \<and> fOy st0 = 0 \<and> fOz st0 = 0 \<and> fLx st0 = 1000 \<and> fLy st0 = 1000 \<and> fLz st0 = 1000"
    by (simp add: st0_def)
  have dir: "(1::real) = X \<lparr>X = 1, Y = 0, Z = 0\<rparr> * (1 / Mag \<lparr>X = 1, Y = 0, Z = 0\<rparr>)
     \<and> (0::real) = Y \<lparr>X = 1, Y = 0, Z = 0\<rparr> * (1 / Mag \<lparr>X = 1, Y = 0, Z = 0\<rparr>)
     \<and> (0::real) = Z \<lparr>X = 1, Y = 0, Z = 0\<rparr> * (1 / Mag \<lparr>X = 1, Y = 0, Z = 0\<rparr>)"
    by (simp add: Mag_def)
  have tg: "tangent_face 1000 (X \<lparr>X = 0, Y = 500, Z = 200\<rparr>) 1 (Y \<lparr>X = 0, Y = 500, Z = 200\<rparr>) 0 (Z \<lparr>X = 0, Y = 500, Z = 200\<rparr>) 0
       \<or> tangent_face (- 1000) (X \<lparr>X = 0, Y = 500, Z = 200\<rparr>) 1 (Y \<lparr>X = 0, Y = 500, Z = 200\<rparr>) 0 (Z \<lparr>X = 0, Y = 500, Z = 200\<rparr>) 0
       \<or> tangent_face 1000 (Y \<lparr>X = 0, Y = 500, Z = 200\<rparr>) 0 (Z \<lparr>X = 0, Y = 500, Z = 200\<rparr>) 0 (X \<lparr>X = 0, Y = 500, Z = 200\<rparr>) 1
       \<or> tangent_face (- 1000) (Y \<lparr>X = 0, Y = 500, Z = 200\<rparr>) 0 (Z \<lparr>X = 0, Y = 500, Z = 200\<rparr>) 0 (X \<lparr>X = 0, Y = 500, Z = 200\<rparr>) 1
       \<or> tangent_face 1000 (Z \<lparr>X = 0, Y = 500, Z = 200\<rparr>) 0 (X \<lparr>X = 0, Y = 500, Z = 200\<rparr>) 1 (Y \<lparr>X = 0, Y = 500, Z = 200\<rparr>) 0
       \<or> tangent_face (- 1000) (Z \<lparr>X = 0, Y = 500, Z = 200\<rparr>) 0 (X \<lparr>X = 0, Y = 500, Z = 200\<rparr>) 1 (Y \<lparr>X = 0, Y = 500, Z = 200\<rparr>) 0"
    using t by simp
  from SDVEntryAndExitPoints_tangent_is_miss[OF box dir tg] t show ?thesis by blast
qed

section \<open>The retry loop\<close>

lemma V_log: "VolumeEntryAndExitPoints U0 G_log sp \<lparr>X = 0, Y = 0, Z = 2\<rparr> e x s w =
   Inr (False, e, x, s\<lparr>fSx := X sp * (1 / lunits s), fSy := Y sp * (1 / lunits s), fSz := Z sp * (1 / lunits s),
      fSxROOT := X sp * (1 / lunits s) * lunits s / 10, fSyROOT := Y sp * (1 / lunits s) * lunits s / 10,
      fSzROOT := Z sp * (1 / lunits s) * lunits s / 10,  fPx := 0, fPy := 0, fPz := 1\<rparr>, (0, 0, 1) # w)"
  by (simp add: VolumeEntryAndExitPoints_def enter_volume_def Let_def G_log_def U0_def)

lemma gen_log: "GenerateDecayPosition G_log ev w = ([real (length w), 0, - 5000], w)"
  by (simp add: G_log_def)

text \<open>
  C8. The claim: every iteration of the retry loop samples a fresh production vertex and
  a fresh momentum direction. The code assigns only \<open>startPoint\<close> in the loop (the comment
  there says "sample prod vtx and momentum... again"). On a geometry that is always
  missed, with a production model that returns a different vertex on every call, the
  intersector is called 21 times, the direction handed to the geometry is \<open>(0, 0, 1)\<close>
  every time, and the last start point is the twentieth sampled vertex.
\<close>

theorem ProcessEventRecord_retries_keep_momentum:
  "\<exists>st' w'. ProcessEventRecord U0 G_log ev0 st0 [] = Inr (ev0\<lparr>Vertex := v4dummy\<rparr>, st', w')
      \<and> length w' = 21 \<and> set w' = {(0, 0, 1)} \<and> fSx st' = 20"
  by (simp add: ProcessEventRecord_def V_log st0_def retry_loop.simps trajMax_def gen_log)

lemma enter_volume_isUsingDk2nu:
  "enter_volume U G sp m st w = Inr (nd, st', w') \<Longrightarrow> isUsingDk2nu st' = isUsingDk2nu st"
  by (auto simp: enter_volume_def Let_def split: prod.splits if_splits)

lemma save_entry_and_step_isUsingDk2nu:
  "save_entry_and_step U G st w = (e, st', w', s) \<Longrightarrow> isUsingDk2nu st' = isUsingDk2nu st"
  by (auto simp: save_entry_and_step_def Let_def)

lemma VolumeEntryAndExitPoints_isUsingDk2nu:
  assumes "VolumeEntryAndExitPoints U G sp m e x st w = Inr (b, e', x', st', w')"
  shows "isUsingDk2nu st' = isUsingDk2nu st"
proof (cases "enter_volume U G sp m st w")
  case (Inl a)
  with assms show ?thesis by (simp add: VolumeEntryAndExitPoints_def)
next
  case (Inr r)
  obtain nd st1 w1 where r: "r = (nd, st1, w1)" by (cases r)
  note ev = Inr[unfolded r]
  have 1: "isUsingDk2nu st1 = isUsingDk2nu st" using ev by (rule enter_volume_isUsingDk2nu)
  show ?thesis
  proof (cases nd)
    case None
    with assms ev 1 show ?thesis by (simp add: VolumeEntryAndExitPoints_def)
  next
    case (Some n)
    obtain en st2 w2 sN where s: "save_entry_and_step U G st1 w1 = (en, st2, w2, sN)"
      using prod_cases4 by blast
    have 2: "isUsingDk2nu st2 = isUsingDk2nu st1" using s by (rule save_entry_and_step_isUsingDk2nu)
    obtain w3 s3 sf n3 where l: "boundary_loop G (2 * lunits st2 / units_cm U) w2 sN
       \<lparr>X = 0, Y = 0, Z = 0\<rparr> 0 = (w3, s3, sf, n3)"
      using prod_cases4 by blast
    from assms show ?thesis
      unfolding VolumeEntryAndExitPoints_def
      by (simp only: ev s l Some sum.case prod.case option.distinct if_False)
         (auto simp: Let_def 1 2 split: if_splits)
  qed
qed

lemma retry_loop_miss_exhausts:
  "k = nat (trajMax - i) \<Longrightarrow> i \<le> trajMax \<Longrightarrow>
   retry_loop U G ev m did i sp e x st w = Inr (False, n, sp', e', x', st', w') \<Longrightarrow> n = trajMax"
proof (induction k arbitrary: did i sp e x st w)
  case 0
  then have "i = trajMax" by simp
  with "0.prems"(3) show ?case
    by (subst (asm) retry_loop.simps) simp
next
  case (Suc k)
  then have lt: "i < trajMax" by simp
  from Suc.prems(3) lt
  have "\<exists>d1 sp1 e1 x1 s1 w1.
      retry_loop U G ev m d1 (i + 1) sp1 e1 x1 s1 w1 = Inr (False, n, sp', e', x', st', w')"
    by (subst (asm) retry_loop.simps)
       (auto simp: Let_def split: if_splits sum.splits prod.splits, blast)
  then obtain d1 sp1 e1 x1 s1 w1 where
    r: "retry_loop U G ev m d1 (i + 1) sp1 e1 x1 s1 w1 = Inr (False, n, sp', e', x', st', w')"
    by blast
  from Suc.prems have "k = nat (trajMax - (i + 1))" and "i + 1 \<le> trajMax" by simp_all
  from Suc.IH[OF this r] show ?case .
qed

text \<open>
  C4. Not using dk2nu, when the first call of the intersector returns \<open>false\<close> and the
  retry loop ends with \<open>didIntersectDet\<close> still \<open>false\<close> (every attempt of the run has
  failed), the loop has used its 20 tries, and \<open>ProcessEventRecord\<close> returns with the
  vertex \<open>(-999.9, -999.9, -999.9, -999.9)\<close> written, the weight of the event unchanged,
  and the error logged.
\<close>

theorem ProcessEventRecord_bails_with_sentinel:
  assumes nodk: "\<not> isUsingDk2nu st"
    and first: "VolumeEntryAndExitPoints U G \<lparr>X = fSx st, Y = fSy st, Z = fSz st\<rparr>
        \<lparr>X = fPx st, Y = fPy st, Z = fPz st\<rparr> \<lparr>X = 0, Y = 0, Z = 0\<rparr> \<lparr>X = 0, Y = 0, Z = 0\<rparr> st w
          = Inr (False, e1, x1, s1, w1)"
    and retries: "retry_loop U G ev \<lparr>X = fPx st, Y = fPy st, Z = fPz st\<rparr> False 0
        \<lparr>X = fSx st, Y = fSy st, Z = fSz st\<rparr> e1 x1 s1 w1
          = Inr (False, trajIdx, sp', e', x', st', w')"
  shows "trajIdx = 20 \<and>
     (\<exists>ev' st''. ProcessEventRecord U G ev st w = Inr (ev', st'', w')
        \<and> Vertex ev' = \<lparr>X = - 999.9, Y = - 999.9, Z = - 999.9, T = - 999.9\<rparr>
        \<and> Weight ev' = Weight ev
        \<and> hd (messages st'') = UnableToIntersect 20)"
proof -
  have "(0::int) \<le> trajMax" by (simp add: trajMax_def)
  from retry_loop_miss_exhausts[OF refl this retries] have t: "trajIdx = trajMax" .
  from VolumeEntryAndExitPoints_isUsingDk2nu[OF first] nodk have dk: "\<not> isUsingDk2nu s1" by simp
  have "ProcessEventRecord U G ev st w =
      Inr (ev\<lparr>Vertex := v4dummy\<rparr>, st'\<lparr>messages := UnableToIntersect trajMax # messages st'\<rparr>, w')"
    unfolding ProcessEventRecord_def Let_def
    by (simp only: first retries[unfolded t] dk sum.case prod.case if_False if_True simp_thms)
  with t show ?thesis by (simp add: trajMax_def v4dummy_def)
qed


theorem ProcessEventRecord_bails_with_sentinel_witness:
  "\<not> isUsingDk2nu st0 \<and>
   (\<exists>ev' st' w'. ProcessEventRecord U0 G_log ev0 st0 [] = Inr (ev', st', w')
      \<and> Vertex ev' = \<lparr>X = - 999.9, Y = - 999.9, Z = - 999.9, T = - 999.9\<rparr>
      \<and> Weight ev' = 3 \<and> hd (messages st') = UnableToIntersect 20)"
proof -
  let ?z = "\<lparr>X = 0, Y = 0, Z = 0\<rparr>"
  have nodk: "\<not> isUsingDk2nu st0" by (simp add: st0_def)
  have m: "\<lparr>X = fPx st0, Y = fPy st0, Z = fPz st0\<rparr> = \<lparr>X = 0, Y = 0, Z = 2\<rparr>"
    by (simp add: st0_def)
  have "\<exists>s1 w1. VolumeEntryAndExitPoints U0 G_log \<lparr>X = fSx st0, Y = fSy st0, Z = fSz st0\<rparr>
        \<lparr>X = fPx st0, Y = fPy st0, Z = fPz st0\<rparr> ?z ?z st0 [] = Inr (False, ?z, ?z, s1, w1)"
    unfolding m V_log by blast
  then obtain s1 w1 where
    first: "VolumeEntryAndExitPoints U0 G_log \<lparr>X = fSx st0, Y = fSy st0, Z = fSz st0\<rparr>
        \<lparr>X = fPx st0, Y = fPy st0, Z = fPz st0\<rparr> ?z ?z st0 [] = Inr (False, ?z, ?z, s1, w1)"
    by blast
  have "\<exists>n sp' e' x' st' w'. retry_loop U0 G_log ev0 \<lparr>X = fPx st0, Y = fPy st0, Z = fPz st0\<rparr>
        False 0 \<lparr>X = fSx st0, Y = fSy st0, Z = fSz st0\<rparr> ?z ?z s1 w1
          = Inr (False, n, sp', e', x', st', w')"
    unfolding m by (simp add: retry_loop.simps V_log gen_log trajMax_def Let_def)
  then obtain n sp' e' x' st' w' where
    retries: "retry_loop U0 G_log ev0 \<lparr>X = fPx st0, Y = fPy st0, Z = fPz st0\<rparr>
        False 0 \<lparr>X = fSx st0, Y = fSy st0, Z = fSz st0\<rparr> ?z ?z s1 w1
          = Inr (False, n, sp', e', x', st', w')"
    by blast
  from ProcessEventRecord_bails_with_sentinel[OF nodk first retries] nodk
  show ?thesis by (auto simp: ev0_def)
qed

section \<open>The travel length\<close>

lemma elapsed_length_props:
  assumes c: "0 < c" and b0: "0 < b" and b1: "b < 1" and t: "0 < tau" and L: "0 < L"
  shows "0 \<le> u \<Longrightarrow> u < 1 \<Longrightarrow> 0 \<le> elapsed_length c b tau L u \<and> elapsed_length c b tau L u \<le> L"
    and "elapsed_length c b tau L 0 = L"
    and "0 \<le> u1 \<Longrightarrow> u1 < u2 \<Longrightarrow> u2 < 1 \<Longrightarrow> elapsed_length c b tau L u2 < elapsed_length c b tau L u1"
    and "((\<lambda>u. elapsed_length c b tau L u) \<longlongrightarrow> 0) (at_left 1)"
proof -
  define g where "g = sqrt (1 / (1 - b * b))"
  define PE where "PE = exp (- (L / (b * c) / g) / tau)"
  define K where "K = tau * g * b * c"
  have "b * b < 1 * 1" using b0 b1 by (intro mult_strict_mono) auto
  then have g: "0 < g" by (simp add: g_def)
  have K: "0 < K" using c b0 t g by (simp add: K_def)
  have el: "\<And>u. elapsed_length c b tau L u = K * ln (1 / ((1 - PE) * u + PE))"
    by (simp add: elapsed_length_def Let_def g_def PE_def K_def algebra_simps)
  have "ln (1 / PE) = (L / (b * c) / g) / tau"
    by (simp add: PE_def ln_div)
  then have KL: "K * ln (1 / PE) = L"
    using c b0 t g by (simp add: K_def field_simps)
  have "0 < L / (b * c) / g / tau" using c b0 t L g by simp
  then have PE1: "PE < 1" by (simp add: PE_def)
  have PE0: "0 < PE" by (simp add: PE_def)
  have S: "\<And>u. 0 \<le> u \<Longrightarrow> 0 < (1 - PE) * u + PE"
    using PE0 PE1 by (simp add: add_nonneg_pos)
  have mono: "\<And>a b. 0 \<le> a \<Longrightarrow> a < b \<Longrightarrow> (1 - PE) * a + PE < (1 - PE) * b + PE"
    using PE1 by simp
  have dec: "\<And>a b. 0 \<le> a \<Longrightarrow> a < b \<Longrightarrow> K * ln (1 / ((1 - PE) * b + PE)) < K * ln (1 / ((1 - PE) * a + PE))"
  proof -
    fix a b :: real assume a: "0 \<le> a" and ab: "a < b"
    then have "0 \<le> b" by simp
    from mono[OF a ab] S[OF a] S[OF this]
    have "ln ((1 - PE) * a + PE) < ln ((1 - PE) * b + PE)" by simp
    then have "ln (1 / ((1 - PE) * b + PE)) < ln (1 / ((1 - PE) * a + PE))"
      using S[OF a] S[OF \<open>0 \<le> b\<close>] by (simp add: ln_div)
    with K show "K * ln (1 / ((1 - PE) * b + PE)) < K * ln (1 / ((1 - PE) * a + PE))" by simp
  qed
  show e0: "elapsed_length c b tau L 0 = L" using KL by (simp add: el)
  have e1: "elapsed_length c b tau L 1 = 0" by (simp add: el)
  show "0 \<le> u1 \<Longrightarrow> u1 < u2 \<Longrightarrow> u2 < 1 \<Longrightarrow> elapsed_length c b tau L u2 < elapsed_length c b tau L u1"
    using dec by (simp add: el)
  show "0 \<le> u \<Longrightarrow> u < 1 \<Longrightarrow> 0 \<le> elapsed_length c b tau L u \<and> elapsed_length c b tau L u \<le> L"
  proof -
    assume u: "0 \<le> u" "u < 1"
    from dec[OF u] have "0 < elapsed_length c b tau L u" by (simp add: el)
    moreover have "elapsed_length c b tau L u \<le> L"
    proof (cases "u = 0")
      case True then show ?thesis using e0 by simp
    next
      case False
      with u have "0 < u" by simp
      from dec[OF order_refl this] KL show ?thesis by (simp add: el)
    qed
    ultimately show ?thesis by simp
  qed
  have "isCont (\<lambda>u. K * ln (1 / ((1 - PE) * u + PE))) 1"
    by (intro continuous_intros) simp_all
  then have "((\<lambda>u. K * ln (1 / ((1 - PE) * u + PE))) \<longlongrightarrow> K * ln (1 / ((1 - PE) * 1 + PE))) (at 1)"
    by (simp add: isCont_def)
  then have "((\<lambda>u. elapsed_length c b tau L u) \<longlongrightarrow> 0) (at 1)"
    by (simp add: el)
  then show "((\<lambda>u. elapsed_length c b tau L u) \<longlongrightarrow> 0) (at_left 1)"
    by (rule filterlim_mono[OF _ order_refl at_le]) simp
qed


text \<open>
  C6. For a positive speed of light in the active units, \<open>0 < betaMag < 1\<close>, a positive
  lifetime and a positive segment length: with a draw \<open>ranthrow\<close> in \<open>[0, 1)\<close>,
  \<open>CalcTravelLength\<close> returns a length between 0 and the segment length; the length is
  the segment length for the draw 0, strictly decreasing in the draw, and tends to 0 as
  the draw tends to 1.
\<close>

theorem CalcTravelLength_within_segment:
  assumes c: "0 < kNewSpeedOfLight st" and b: "0 < betaMag \<and> betaMag < 1"
    and t: "0 < CoMLifetime" and L: "0 < maxLength"
    and u: "Uniform G w = (ranthrow, w')" and u0: "0 \<le> ranthrow" and u1: "ranthrow < 1"
  shows "(\<exists>l. CalcTravelLength G st betaMag CoMLifetime maxLength w = Inr (l, w')
            \<and> l = elapsed_length (kNewSpeedOfLight st) betaMag CoMLifetime maxLength ranthrow
            \<and> 0 \<le> l \<and> l \<le> maxLength)
      \<and> elapsed_length (kNewSpeedOfLight st) betaMag CoMLifetime maxLength 0 = maxLength
      \<and> (\<forall>a b. 0 \<le> a \<and> a < b \<and> b < 1 \<longrightarrow>
            elapsed_length (kNewSpeedOfLight st) betaMag CoMLifetime maxLength b
              < elapsed_length (kNewSpeedOfLight st) betaMag CoMLifetime maxLength a)
      \<and> ((\<lambda>r. elapsed_length (kNewSpeedOfLight st) betaMag CoMLifetime maxLength r)
            \<longlongrightarrow> 0) (at_left 1)"
proof -
  from b have b0: "0 < betaMag" and b1: "betaMag < 1" by simp_all
  note p = elapsed_length_props[OF c b0 b1 t L]
  have "CalcTravelLength G st betaMag CoMLifetime maxLength w =
      Inr (elapsed_length (kNewSpeedOfLight st) betaMag CoMLifetime maxLength ranthrow, w')"
    using b u by (simp add: CalcTravelLength_def)
  with p(1)[OF u0 u1] p(2) p(3) p(4) show ?thesis by blast
qed

theorem CalcTravelLength_within_segment_witness:
  "\<exists>l. CalcTravelLength G_inside st0 (1 / 2) 1 1000 () = Inr (l, ()) \<and> 0 \<le> l \<and> l \<le> 1000"
proof -
  have c: "0 < kNewSpeedOfLight st0" by (simp add: st0_def)
  have b: "(0::real) < 1 / 2 \<and> (1::real) / 2 < 1" by simp
  have u: "Uniform G_inside () = (1 / 2, ())" by (simp add: G_inside_def)
  from CalcTravelLength_within_segment[OF c b _ _ u, of 1 1000]
  show ?thesis by auto
qed

section \<open>The geometric weight\<close>

lemma prob_bounds:
  assumes "0 < tB" and "0 < tI" and "0 < tau"
  shows "0 < survProb tB tau" and "survProb tB tau \<le> 1"
    and "0 < decayProb tI tau" and "decayProb tI tau \<le> 1"
    and "1 < 1 / (survProb tB tau * decayProb tI tau)"
proof -
  have "0 < tB / tau" and "0 < tI / tau" using assms by simp_all
  then have s1: "survProb tB tau < 1" and d0: "0 < decayProb tI tau"
    by (simp_all add: survProb_def decayProb_def)
  show s0: "0 < survProb tB tau" by (simp add: survProb_def)
  show "survProb tB tau \<le> 1" using s1 by simp
  show "0 < decayProb tI tau" by (rule d0)
  have d1: "decayProb tI tau < 1" by (simp add: decayProb_def)
  then show "decayProb tI tau \<le> 1" by simp
  have "survProb tB tau * decayProb tI tau < 1 * 1"
    using s0 s1 d0 d1 by (intro mult_strict_mono) auto
  moreover have "0 < survProb tB tau * decayProb tI tau" using s0 d0 by simp
  ultimately show "1 < 1 / (survProb tB tau * decayProb tI tau)" by simp
qed

lemma decay_in_detector_weight:
  assumes stU: "stU = EnforceUnits U ''mm'' ''rad'' ''ns'' st"
    and tau: "tau = fCoMLifetime stU * (1 / (units_ns U * units_GeV U))"
    and c: "c = kNewSpeedOfLight stU"
    and betaMag: "betaMag =
        TLorentzVector_P (Particle0_P4 event_rec) / TLorentzVector_E (Particle0_P4 event_rec)"
    and gamma: "gamma = sqrt (1 / (1 - betaMag * betaMag))"
    and maxLength: "maxLength =
        sqrt ((X exitPoint - X entryPoint)\<^sup>2 + (Y exitPoint - Y entryPoint)\<^sup>2
              + (Z exitPoint - Z entryPoint)\<^sup>2)"
    and timeBeforeDet: "timeBeforeDet =
        distanceBeforeDet entryPoint startPoint / (betaMag * c) * (1 / gamma)"
    and timeInsideDet: "timeInsideDet = maxLength / (betaMag * c) * (1 / gamma)"
    and beta: "0 < betaMag \<and> betaMag < 1"
  shows "\<exists>event_rec' st' w'.
      decay_in_detector U G event_rec startPoint momentum entryPoint exitPoint st w
        = Inr (event_rec', st', w')
      \<and> Weight event_rec' = Weight event_rec *
          (1 / (exp (- timeBeforeDet / tau) * (1 - exp (- timeInsideDet / tau))))"
proof -
  obtain u w1 where u: "Uniform G w = (u, w1)" by (cases "Uniform G w")
  have "\<exists>event_rec' st'.
      decay_in_detector U G event_rec startPoint momentum entryPoint exitPoint st w
        = Inr (event_rec', st', w1)
      \<and> Weight event_rec' = Weight event_rec *
               (1 * (1 / exp (- timeBeforeDet / tau)) * (1 / (1 - exp (- timeInsideDet / tau))))"
    using beta u
    unfolding decay_in_detector_def Let_def CalcTravelLength_def survProb_def decayProb_def
      restFrameTime_def timeBeforeDet timeInsideDet maxLength gamma betaMag c tau stU
    by (simp split: prod.splits)
  then obtain event_rec' st' where
    r: "decay_in_detector U G event_rec startPoint momentum entryPoint exitPoint st w
        = Inr (event_rec', st', w1)"
    and wt: "Weight event_rec' = Weight event_rec *
               (1 * (1 / exp (- timeBeforeDet / tau)) * (1 / (1 - exp (- timeInsideDet / tau))))"
    by blast
  from wt have "Weight event_rec' = Weight event_rec *
          (1 / (exp (- timeBeforeDet / tau) * (1 - exp (- timeInsideDet / tau))))"
    by simp
  with r show ?thesis by blast
qed

lemma ProcessEventRecord_hit:
  assumes first: "VolumeEntryAndExitPoints U G \<lparr>X = fSx st, Y = fSy st, Z = fSz st\<rparr>
        \<lparr>X = fPx st, Y = fPy st, Z = fPz st\<rparr> \<lparr>X = 0, Y = 0, Z = 0\<rparr> \<lparr>X = 0, Y = 0, Z = 0\<rparr> st w
          = Inr (did, e1, x1, s1, w1)"
    and hit: "(isUsingDk2nu s1 \<and> did \<and>
         (startPoint, entryPoint, exitPoint, s2, w2)
           = (\<lparr>X = fSx st, Y = fSy st, Z = fSz st\<rparr>, e1, x1, s1, w1))
       \<or> (\<not> isUsingDk2nu s1 \<and>
           retry_loop U G event_rec \<lparr>X = fPx st, Y = fPy st, Z = fPz st\<rparr> did 0
             \<lparr>X = fSx st, Y = fSy st, Z = fSz st\<rparr> e1 x1 s1 w1
           = Inr (True, trajIdx, startPoint, entryPoint, exitPoint, s2, w2))"
  shows "ProcessEventRecord U G event_rec st w =
     decay_in_detector U G event_rec startPoint \<lparr>X = fPx st, Y = fPy st, Z = fPz st\<rparr>
       entryPoint exitPoint s2 w2"
  using hit
proof
  assume "isUsingDk2nu s1 \<and> did \<and>
         (startPoint, entryPoint, exitPoint, s2, w2)
           = (\<lparr>X = fSx st, Y = fSy st, Z = fSz st\<rparr>, e1, x1, s1, w1)"
  then show ?thesis
    by (simp add: ProcessEventRecord_def Let_def first trajMax_def)
next
  assume "\<not> isUsingDk2nu s1 \<and>
           retry_loop U G event_rec \<lparr>X = fPx st, Y = fPy st, Z = fPz st\<rparr> did 0
             \<lparr>X = fSx st, Y = fSy st, Z = fSz st\<rparr> e1 x1 s1 w1
           = Inr (True, trajIdx, startPoint, entryPoint, exitPoint, s2, w2)"
  then show ?thesis
    by (simp add: ProcessEventRecord_def Let_def first)
qed

lemma exp_prob_bounds:
  assumes "0 < tB" and "0 < tI" and "0 < (tau::real)"
  shows "0 < exp (- tB / tau) \<and> exp (- tB / tau) \<le> 1
     \<and> 0 < 1 - exp (- tI / tau) \<and> 1 - exp (- tI / tau) \<le> 1
     \<and> 1 < 1 / (exp (- tB / tau) * (1 - exp (- tI / tau)))"
  using prob_bounds[OF assms] by (simp add: survProb_def decayProb_def)

text \<open>
  C5. When the intersection phase of \<open>ProcessEventRecord\<close> ends with a hit (at the first
  call with dk2nu, at the first call or from the retry loop without), with \<open>tau\<close> the
  lifetime after the unit conversion and the two rest-frame times as the code computes
  them: if the assertion on \<open>betaMag\<close> holds and both times and the lifetime are positive,
  \<open>ProcessEventRecord\<close> returns, the survival probability \<open>exp (- timeBeforeDet / tau)\<close> and
  the decay probability \<open>1 - exp (- timeInsideDet / tau)\<close> are in \<open>(0, 1]\<close>, the inverse of
  their product is greater than 1, and the new weight of the event is the old weight times
  that factor.
\<close>

theorem ProcessEventRecord_reweights:
  assumes first: "VolumeEntryAndExitPoints U G \<lparr>X = fSx st, Y = fSy st, Z = fSz st\<rparr>
        \<lparr>X = fPx st, Y = fPy st, Z = fPz st\<rparr> \<lparr>X = 0, Y = 0, Z = 0\<rparr> \<lparr>X = 0, Y = 0, Z = 0\<rparr> st w
          = Inr (did, e1, x1, s1, w1)"
    and hit: "(isUsingDk2nu s1 \<and> did \<and>
         (startPoint, entryPoint, exitPoint, s2, w2)
           = (\<lparr>X = fSx st, Y = fSy st, Z = fSz st\<rparr>, e1, x1, s1, w1))
       \<or> (\<not> isUsingDk2nu s1 \<and>
           retry_loop U G event_rec \<lparr>X = fPx st, Y = fPy st, Z = fPz st\<rparr> did 0
             \<lparr>X = fSx st, Y = fSy st, Z = fSz st\<rparr> e1 x1 s1 w1
           = Inr (True, trajIdx, startPoint, entryPoint, exitPoint, s2, w2))"
    and stU: "stU = EnforceUnits U ''mm'' ''rad'' ''ns'' s2"
    and tau: "tau = fCoMLifetime stU * (1 / (units_ns U * units_GeV U))"
    and c: "c = kNewSpeedOfLight stU"
    and betaMag: "betaMag =
        TLorentzVector_P (Particle0_P4 event_rec) / TLorentzVector_E (Particle0_P4 event_rec)"
    and gamma: "gamma = sqrt (1 / (1 - betaMag * betaMag))"
    and maxLength: "maxLength =
        sqrt ((X exitPoint - X entryPoint)\<^sup>2 + (Y exitPoint - Y entryPoint)\<^sup>2
              + (Z exitPoint - Z entryPoint)\<^sup>2)"
    and timeBeforeDet: "timeBeforeDet =
        distanceBeforeDet entryPoint startPoint / (betaMag * c) * (1 / gamma)"
    and timeInsideDet: "timeInsideDet = maxLength / (betaMag * c) * (1 / gamma)"
    and beta: "0 < betaMag \<and> betaMag < 1"
    and tB: "0 < timeBeforeDet" and tI: "0 < timeInsideDet" and tau0: "0 < tau"
  shows "\<exists>event_rec' st' w'.
      ProcessEventRecord U G event_rec st w = Inr (event_rec', st', w')
      \<and> Weight event_rec' = Weight event_rec *
          (1 / (exp (- timeBeforeDet / tau) * (1 - exp (- timeInsideDet / tau))))
      \<and> 0 < exp (- timeBeforeDet / tau) \<and> exp (- timeBeforeDet / tau) \<le> 1
      \<and> 0 < 1 - exp (- timeInsideDet / tau) \<and> 1 - exp (- timeInsideDet / tau) \<le> 1
      \<and> 1 < 1 / (exp (- timeBeforeDet / tau) * (1 - exp (- timeInsideDet / tau)))"
proof -
  note eq = ProcessEventRecord_hit[OF first hit]
  from decay_in_detector_weight[OF stU tau c betaMag gamma maxLength timeBeforeDet
      timeInsideDet beta, of G "\<lparr>X = fPx st, Y = fPy st, Z = fPz st\<rparr>" w2]
  obtain event_rec' st' w' where
    "ProcessEventRecord U G event_rec st w = Inr (event_rec', st', w')"
    and "Weight event_rec' = Weight event_rec *
          (1 / (exp (- timeBeforeDet / tau) * (1 - exp (- timeInsideDet / tau))))"
    unfolding eq by blast
  with exp_prob_bounds[OF tB tI tau0] show ?thesis by blast
qed

lemma weight_grows: "W' = W * F \<Longrightarrow> 1 < F \<Longrightarrow> 0 < W \<Longrightarrow> W < (W'::real)"
  by simp

lemma V_hit:
  "\<exists>s1. VolumeEntryAndExitPoints U0 G_hit \<lparr>X = fSx st0, Y = fSy st0, Z = fSz st0\<rparr>
        \<lparr>X = fPx st0, Y = fPy st0, Z = fPz st0\<rparr> \<lparr>X = 0, Y = 0, Z = 0\<rparr> \<lparr>X = 0, Y = 0, Z = 0\<rparr> st0 0
      = Inr (True, \<lparr>X = 0, Y = 0, Z = - 200\<rparr>, \<lparr>X = 0, Y = 0, Z = 100\<rparr>, s1, 3)
     \<and> \<not> isUsingDk2nu s1
     \<and> kNewSpeedOfLight (EnforceUnits U0 ''mm'' ''rad'' ''ns'' s1) = 299.792458
     \<and> fCoMLifetime (EnforceUnits U0 ''mm'' ''rad'' ''ns'' s1) = 1"
  by (simp add: VolumeEntryAndExitPoints_def enter_volume_def save_entry_and_step_def
      boundary_loop.simps Let_def G_hit_def U0_def st0_def bdIdxMax_def TGeoShape_Big_def
      EnforceUnits_def)


theorem ProcessEventRecord_reweights_witness:
  "\<exists>ev' st' w'. ProcessEventRecord U0 G_hit ev0 st0 0 = Inr (ev', st', w') \<and> 3 < Weight ev'"
proof -
  let ?sp = "\<lparr>X = fSx st0, Y = fSy st0, Z = fSz st0\<rparr>"
    and ?m = "\<lparr>X = fPx st0, Y = fPy st0, Z = fPz st0\<rparr>"
    and ?z = "\<lparr>X = 0, Y = 0, Z = 0\<rparr>"
    and ?en = "\<lparr>X = 0, Y = 0, Z = - 200\<rparr>" and ?ex = "\<lparr>X = 0, Y = 0, Z = 100\<rparr>"
  let ?g = "sqrt (1 / (1 - 1 / 2 * (1 / 2)))"
  let ?L = "sqrt ((X ?ex - X ?en)\<^sup>2 + (Y ?ex - Y ?en)\<^sup>2 + (Z ?ex - Z ?en)\<^sup>2)"
  let ?tB = "distanceBeforeDet ?en ?sp / (1 / 2 * 299.792458) * (1 / ?g)"
  let ?tI = "?L / (1 / 2 * 299.792458) * (1 / ?g)"
  from V_hit obtain s1 where
    first: "VolumeEntryAndExitPoints U0 G_hit ?sp ?m ?z ?z st0 0 = Inr (True, ?en, ?ex, s1, 3)"
    and dk: "\<not> isUsingDk2nu s1"
    and k: "kNewSpeedOfLight (EnforceUnits U0 ''mm'' ''rad'' ''ns'' s1) = 299.792458"
    and l: "fCoMLifetime (EnforceUnits U0 ''mm'' ''rad'' ''ns'' s1) = 1"
    by blast
  have "retry_loop U0 G_hit ev0 ?m True 0 ?sp ?en ?ex s1 3 = Inr (True, 0, ?sp, ?en, ?ex, s1, 3)"
    by (subst retry_loop.simps) simp
  with dk have hit: "(isUsingDk2nu s1 \<and> True \<and> (?sp, ?en, ?ex, s1, 3) = (?sp, ?en, ?ex, s1, 3))
       \<or> (\<not> isUsingDk2nu s1 \<and>
           retry_loop U0 G_hit ev0 ?m True 0 ?sp ?en ?ex s1 3 = Inr (True, 0, ?sp, ?en, ?ex, s1, 3))"
    by blast
  have b: "TLorentzVector_P (Particle0_P4 ev0) / TLorentzVector_E (Particle0_P4 ev0) = 1 / 2"
    by (simp add: TLorentzVector_P_def TLorentzVector_E_def ev0_def)
  have u: "units_ns U0 * units_GeV U0 = 1" by (simp add: U0_def)
  have "\<exists>ev' st' w'. ProcessEventRecord U0 G_hit ev0 st0 0 = Inr (ev', st', w')
      \<and> Weight ev' = Weight ev0 * (1 / (exp (- ?tB / 1) * (1 - exp (- ?tI / 1))))
      \<and> 0 < exp (- ?tB / 1) \<and> exp (- ?tB / 1) \<le> 1
      \<and> 0 < 1 - exp (- ?tI / 1) \<and> 1 - exp (- ?tI / 1) \<le> 1
      \<and> 1 < 1 / (exp (- ?tB / 1) * (1 - exp (- ?tI / 1)))"
    by (rule ProcessEventRecord_reweights[OF first hit, where
          stU = "EnforceUnits U0 ''mm'' ''rad'' ''ns'' s1" and c = "299.792458"
          and betaMag = "1 / 2" and gamma = ?g and maxLength = ?L])
       (simp_all add: k l b u distanceBeforeDet_def st0_def)
  then obtain ev' st' w' where
    r: "ProcessEventRecord U0 G_hit ev0 st0 0 = Inr (ev', st', w')"
    and wt: "Weight ev' = Weight ev0 * (1 / (exp (- ?tB / 1) * (1 - exp (- ?tI / 1))))"
    and F: "1 < 1 / (exp (- ?tB / 1) * (1 - exp (- ?tI / 1)))"
    by blast
  have "0 < Weight ev0" and w3: "Weight ev0 = 3" by (simp_all add: ev0_def)
  from weight_grows[OF wt F this(1)] w3 have "3 < Weight ev'" by simp
  with r show ?thesis by blast
qed


end
